theory Spec2Isabelle
  imports
    Main
    "HOL-Library.AList"
    "HOL-Library.Char_ord"
    "HOL-Library.List_Lexorder"
begin

section \<open>Python values used by \<^verbatim>\<open>types_generator.py\<close>\<close>

text \<open>
  Python strings are modelled as \<^typ>\<open>string\<close>, one \<^typ>\<open>char\<close> per code point, so the
  model covers the strings whose code points are below 256. In that range the characters
  for which \<^verbatim>\<open>str.isspace\<close> holds are U+0009..U+000D, U+001C..U+0020, U+0085 and U+00A0, and
  the only decimal digits are \<^verbatim>\<open>0\<close>..\<^verbatim>\<open>9\<close>. Python integers are unbounded: \<^typ>\<open>int\<close>.
  The interpreter's configurable limit on the number of digits that \<^verbatim>\<open>str\<close> and \<^verbatim>\<open>int\<close>
  convert is not part of the model.
\<close>

datatype error = ValueError | NameError | IndexError | AttributeError | ParseError | OSError

definition is_space :: "char \<Rightarrow> bool" where
  "is_space c = (of_char c \<in> {9, 10, 11, 12, 13, 28, 29, 30, 31, 32, 133, 160 :: nat})"

definition strip :: "string \<Rightarrow> string" where
  \<comment> \<open>\<^verbatim>\<open>s.strip()\<close>\<close>
  "strip s = rev (dropWhile is_space (rev (dropWhile is_space s)))"

definition is_digit :: "char \<Rightarrow> bool" where
  "is_digit c = (48 \<le> (of_char c :: nat) \<and> (of_char c :: nat) \<le> 57)"

definition digit_val :: "char \<Rightarrow> nat" where
  "digit_val c = of_char c - 48"

definition digit_char :: "nat \<Rightarrow> char" where
  \<comment> \<open>the character of a decimal digit \<open>d < 10\<close>\<close>
  "digit_char d = ''0123456789'' ! d"

fun py_digits :: "string \<Rightarrow> nat \<Rightarrow> bool \<Rightarrow> nat option" where
  \<comment> \<open>the digit part of an integer literal: digits, with single underscores between
      digits only; the flag says that the previous character was a digit\<close>
  "py_digits [] acc prev = (if prev then Some acc else None)"
| "py_digits (c # cs) acc prev =
     (if is_digit c then py_digits cs (10 * acc + digit_val c) True
      else if c = CHR ''_'' \<and> prev then py_digits cs acc False
      else None)"

definition py_int :: "string \<Rightarrow> error + int" where
  \<comment> \<open>\<^verbatim>\<open>int(s)\<close> on a string, base 10: surrounding whitespace is skipped, one optional
      sign, then the digit part; anything else raises \<^verbatim>\<open>ValueError\<close>\<close>
  "py_int s =
     (case strip s of
        [] \<Rightarrow> Inl ValueError
      | c # cs \<Rightarrow>
          if c = CHR ''-'' then
            (case py_digits cs 0 False of None \<Rightarrow> Inl ValueError | Some n \<Rightarrow> Inr (- int n))
          else if c = CHR ''+'' then
            (case py_digits cs 0 False of None \<Rightarrow> Inl ValueError | Some n \<Rightarrow> Inr (int n))
          else
            (case py_digits (c # cs) 0 False of None \<Rightarrow> Inl ValueError | Some n \<Rightarrow> Inr (int n)))"

fun str_nat :: "nat \<Rightarrow> string" where
  "str_nat n = (if n < 10 then [digit_char n] else str_nat (n div 10) @ [digit_char (n mod 10)])"

definition py_str :: "int \<Rightarrow> string" where
  \<comment> \<open>\<^verbatim>\<open>str(n)\<close> on an integer\<close>
  "py_str n = (if n < 0 then CHR ''-'' # str_nat (nat (- n)) else str_nat (nat n))"


section \<open>The data model\<close>

text \<open>
  An \<^verbatim>\<open>xml.etree.ElementTree.Element\<close>: tag, attribute dictionary, text (\<^verbatim>\<open>None\<close> or a
  string) and children. A Python \<^verbatim>\<open>dict\<close> is an association list in insertion order with
  one pair per key; \<^const>\<open>map_of\<close> is \<^verbatim>\<open>d.get(k)\<close> and \<^const>\<open>AList.update\<close> is
  \<^verbatim>\<open>d[k] = v\<close>.
\<close>

datatype elem =
  Element (tag: string) (attrib: "(string \<times> string) list") (etext: "string option")
    (children: "elem list")

definition elem_find :: "elem \<Rightarrow> string \<Rightarrow> elem option" where
  \<comment> \<open>\<^verbatim>\<open>elem.find(tag)\<close>: the first child with that tag\<close>
  "elem_find e tg = List.find (\<lambda>c. tag c = tg) (children e)"

definition findall :: "elem \<Rightarrow> string \<Rightarrow> elem list" where
  \<comment> \<open>\<^verbatim>\<open>elem.findall(tag)\<close>: the children with that tag, in document order\<close>
  "findall e tg = filter (\<lambda>c. tag c = tg) (children e)"

definition elem_set :: "elem \<Rightarrow> string \<Rightarrow> string \<Rightarrow> elem" where
  \<comment> \<open>\<^verbatim>\<open>elem.set(key, value)\<close>\<close>
  "elem_set e k v = Element (tag e) (AList.update k v (attrib e)) (etext e) (children e)"

definition SubElement :: "elem \<Rightarrow> elem \<Rightarrow> elem" where
  \<comment> \<open>\<^verbatim>\<open>ET.SubElement(parent, tag)\<close> appends a new child. The source fills the child in
      after attaching it; the parent holds a reference, so the model attaches the child
      filled in.\<close>
  "SubElement parent child =
     Element (tag parent) (attrib parent) (etext parent) (children parent @ [child])"

text \<open>
  The dataclass \<^verbatim>\<open>TypeEntry\<close>. The record is polymorphic in how the flags dictionary
  (\<^typ>\<open>'d\<close>) and the three lists (\<^typ>\<open>'l\<close>) are held: by value for parsing and
  serialising, which only build and read them, and by reference into a store for
  \<^verbatim>\<open>duplicate_type\<close>, which copies them. The fields \<^verbatim>\<open>min\<close> and \<^verbatim>\<open>values\<close> are named
  \<open>min_field\<close> and \<open>values_field\<close>, and the text of an element \<open>etext\<close>: the plain names are
  taken in Isabelle.
\<close>

record ('d, 'l) TypeEntry =
  name :: string
  nominal :: "int option"
  lifetime :: "int option"
  restock :: "int option"
  min_field :: "int option"
  quantmin :: "int option"
  quantmax :: "int option"
  cost :: "int option"
  flags :: "'d"
  category :: "string option"
  usages :: "'l"
  values_field :: "'l"
  tags :: "'l"

type_synonym entry = "((string \<times> int) list, string list) TypeEntry"

definition default_flags :: "(string \<times> int) list" where
  \<comment> \<open>the \<^verbatim>\<open>default_factory\<close> of \<^verbatim>\<open>flags\<close>\<close>
  "default_flags =
     [(''count_in_cargo'', 0), (''count_in_hoarder'', 0), (''count_in_map'', 1),
      (''count_in_player'', 0), (''crafted'', 0), (''deloot'', 0)]"

definition CATEGORY_PRESETS :: "string list" where
  "CATEGORY_PRESETS =
     [''weapons'', ''food'', ''tools'', ''clothes'', ''books'', ''containers'',
      ''explosives'', ''lootdispatch'']"

definition truthy :: "string option \<Rightarrow> bool" where
  \<comment> \<open>the truth value of an \<^verbatim>\<open>Optional[str]\<close>: \<^verbatim>\<open>None\<close> and the empty string are false\<close>
  "truthy s = (case s of None \<Rightarrow> False | Some x \<Rightarrow> x \<noteq> [])"

section \<open>\<^verbatim>\<open>TypeEntry.from_xml\<close>\<close>

definition bindE :: "error + 'a \<Rightarrow> ('a \<Rightarrow> error + 'b) \<Rightarrow> error + 'b" where
  \<comment> \<open>sequencing: an exception that is not caught ends the function\<close>
  "bindE m f = (case m of Inl e \<Rightarrow> Inl e | Inr x \<Rightarrow> f x)"

definition get_int :: "elem \<Rightarrow> string \<Rightarrow> error + int option" where
  \<comment> \<open>the inner function \<^verbatim>\<open>get_int\<close>; \<^verbatim>\<open>t.text.strip()\<close> on a text of \<^verbatim>\<open>None\<close> would
      raise \<^verbatim>\<open>AttributeError\<close>, and only \<^verbatim>\<open>ValueError\<close> is caught\<close>
  "get_int e tg =
     (case elem_find e tg of
        None \<Rightarrow> Inr None
      | Some t \<Rightarrow>
          if strip (case etext t of None \<Rightarrow> [] | Some x \<Rightarrow> x) \<noteq> [] then
            (case etext t of
               None \<Rightarrow> Inl AttributeError
             | Some x \<Rightarrow>
                 (case py_int (strip x) of
                    Inr n \<Rightarrow> Inr (Some n)
                  | Inl err \<Rightarrow> if err = ValueError then Inr None else Inl err))
          else Inr None)"

definition read_flag ::
  "elem \<Rightarrow> string \<Rightarrow> (string \<times> int) list \<Rightarrow> error + (string \<times> int) list" where
  \<comment> \<open>the body of the loop over the flag keys\<close>
  "read_flag flags_elem k fl =
     (case map_of (attrib flags_elem) k of
        None \<Rightarrow> Inr fl
      | Some v \<Rightarrow>
          (case py_int v of
             Inr n \<Rightarrow> Inr (AList.update k n fl)
           | Inl err \<Rightarrow> if err = ValueError then Inr fl else Inl err))"

fun read_flags ::
  "elem \<Rightarrow> string list \<Rightarrow> (string \<times> int) list \<Rightarrow> error + (string \<times> int) list" where
  \<comment> \<open>\<^verbatim>\<open>for k in entry.flags.keys(): ...\<close>\<close>
  "read_flags flags_elem [] fl = Inr fl"
| "read_flags flags_elem (k # ks) fl = bindE (read_flag flags_elem k fl) (read_flags flags_elem ks)"

definition names_of :: "elem list \<Rightarrow> string list" where
  \<comment> \<open>\<^verbatim>\<open>[u.get("name") for u in ... if u.get("name")]\<close>\<close>
  "names_of es =
     List.map_filter
       (\<lambda>u. case map_of (attrib u) ''name'' of
              None \<Rightarrow> None
            | Some n \<Rightarrow> if n \<noteq> [] then Some n else None) es"

definition from_xml :: "elem \<Rightarrow> error + entry" where
  "from_xml e =
     (let nm = (case map_of (attrib e) ''name'' of None \<Rightarrow> [] | Some v \<Rightarrow> v) in
      bindE (get_int e ''nominal'') (\<lambda>v1.
      bindE (get_int e ''lifetime'') (\<lambda>v2.
      bindE (get_int e ''restock'') (\<lambda>v3.
      bindE (get_int e ''min'') (\<lambda>v4.
      bindE (get_int e ''quantmin'') (\<lambda>v5.
      bindE (get_int e ''quantmax'') (\<lambda>v6.
      bindE (get_int e ''cost'') (\<lambda>v7.
        let ent = \<lparr>name = nm, nominal = v1, lifetime = v2, restock = v3, min_field = v4,
                   quantmin = v5, quantmax = v6, cost = v7, flags = default_flags,
                   category = None, usages = [], values_field = [], tags = []\<rparr>
        in
        bindE (case elem_find e ''flags'' of
                 None \<Rightarrow> Inr (flags ent)
               | Some flags_elem \<Rightarrow> read_flags flags_elem (map fst (flags ent)) (flags ent))
          (\<lambda>fl.
             Inr (ent\<lparr>flags := fl,
                      category := (case elem_find e ''category'' of
                                     None \<Rightarrow> category ent
                                   | Some cat_elem \<Rightarrow> map_of (attrib cat_elem) ''name''),
                      usages := names_of (findall e ''usage''),
                      values_field := names_of (findall e ''value''),
                      tags := names_of (findall e ''tag'')\<rparr>))))))))))"

section \<open>\<^verbatim>\<open>TypeEntry.to_xml\<close>\<close>

definition put_int :: "string \<Rightarrow> int option \<Rightarrow> elem \<Rightarrow> elem" where
  \<comment> \<open>the inner function \<^verbatim>\<open>put_int\<close>, on the element \<^verbatim>\<open>t\<close> it closes over\<close>
  "put_int tg val t =
     (case val of None \<Rightarrow> t | Some v \<Rightarrow> SubElement t (Element tg [] (Some (py_str v)) []))"

definition flags_child :: "(string \<times> int) list \<Rightarrow> elem" where
  \<comment> \<open>\<^verbatim>\<open>for k, v in self.flags.items(): f.set(k, str(int(v)))\<close> on a new \<^verbatim>\<open>flags\<close> element\<close>
  "flags_child fl = fold (\<lambda>(k, v) f. elem_set f k (py_str v)) fl (Element ''flags'' [] None [])"

definition int_child :: "string \<Rightarrow> int option \<Rightarrow> elem list" where
  \<comment> \<open>the children that \<^const>\<open>put_int\<close> appends: one for a value, none for \<^verbatim>\<open>None\<close>\<close>
  "int_child tg val = (case val of None \<Rightarrow> [] | Some v \<Rightarrow> [Element tg [] (Some (py_str v)) []])"

definition named_child :: "string \<Rightarrow> string \<Rightarrow> elem" where
  \<comment> \<open>a child that carries one \<^verbatim>\<open>name\<close> attribute\<close>
  "named_child tg n = Element tg [(''name'', n)] None []"

definition category_child :: "string option \<Rightarrow> elem list" where
  \<comment> \<open>the children that \<^verbatim>\<open>if self.category: ...\<close> appends\<close>
  "category_child cat =
     (case cat of
        None \<Rightarrow> []
      | Some c \<Rightarrow> if c \<noteq> [] then [named_child ''category'' c] else [])"

definition to_xml :: "entry \<Rightarrow> elem" where
  "to_xml r =
     (let t = Element ''type'' [(''name'', name r)] None [];
          t = put_int ''nominal'' (nominal r) t;
          t = put_int ''lifetime'' (lifetime r) t;
          t = put_int ''restock'' (restock r) t;
          t = put_int ''min'' (min_field r) t;
          t = put_int ''quantmin'' (quantmin r) t;
          t = put_int ''quantmax'' (quantmax r) t;
          t = put_int ''cost'' (cost r) t;
          t = (if list_ex (\<lambda>(k, v). v \<noteq> 0) (flags r) \<or> True then
                 SubElement t (flags_child (flags r))
               else t);
          t = (if truthy (category r) then
                 SubElement t (named_child ''category'' (case category r of None \<Rightarrow> [] | Some c \<Rightarrow> c))
               else t);
          t = fold (\<lambda>u t. SubElement t (named_child ''usage'' u)) (usages r) t;
          t = fold (\<lambda>v t. SubElement t (named_child ''value'' v)) (values_field r) t;
          t = fold (\<lambda>tg t. SubElement t (named_child ''tag'' tg)) (tags r) t
      in t)"

section \<open>The collection held by \<^verbatim>\<open>MainWindow\<close>\<close>

text \<open>
  The state of the window that the list operations read and write: \<^verbatim>\<open>self.entries\<close> and
  \<^verbatim>\<open>self.category_pool\<close>. The widgets are outside the model; what an operation reads
  from them is a parameter: the row of \<^verbatim>\<open>self.list.currentItem()\<close> (\<^verbatim>\<open>None\<close> without a
  current item), \<^verbatim>\<open>self.editor.current\<close>, the result of \<^verbatim>\<open>self.editor.collect_entry()\<close>,
  the path chosen in the file dialog and the result of \<^verbatim>\<open>ET.parse(path).getroot()\<close>.
\<close>

record ('d, 'l) MainWindow =
  entries :: "('d, 'l) TypeEntry list"
  category_pool :: "string list"

datatype outcome =
    Completed
  | Returned
  | Warning string
  | Critical string error
  | Raised error

definition update_category_pool ::
  "('d, 'l) TypeEntry \<Rightarrow> ('d, 'l) MainWindow \<Rightarrow> ('d, 'l) MainWindow" where
  \<comment> \<open>\<^verbatim>\<open>if entry.category: if entry.category not in self.category_pool: append\<close>\<close>
  "update_category_pool ent w =
     (case category ent of
        None \<Rightarrow> w
      | Some c \<Rightarrow>
          if c \<noteq> [] then
            (if c \<in> set (category_pool w) then w
             else w\<lparr>category_pool := category_pool w @ [c]\<rparr>)
          else w)"

definition save_add ::
  "('d, 'l) MainWindow \<Rightarrow> ('d, 'l) TypeEntry \<Rightarrow> outcome + ('d, 'l) MainWindow" where
  \<comment> \<open>the branch \<^verbatim>\<open>cur is None or self.editor.current is None\<close>: adding a new item\<close>
  "save_add w ent =
     (if list_ex (\<lambda>e. name e = name ent) (entries w) then Inl (Warning ''Duplicate'')
      else Inr (w\<lparr>entries := entries w @ [ent]\<rparr>))"

definition save_update ::
  "('d, 'l) MainWindow \<Rightarrow> ('d, 'l) TypeEntry \<Rightarrow> nat \<Rightarrow> outcome + ('d, 'l) MainWindow" where
  \<comment> \<open>the \<^verbatim>\<open>else\<close> branch. Its assignment reads \<^verbatim>\<open>self.entries[idx] = entryry\<close>: the name
      \<^verbatim>\<open>entryry\<close> is bound nowhere, so evaluating the right-hand side raises
      \<^verbatim>\<open>NameError\<close> before anything is stored.\<close>
  "save_update w ent idx =
     (if list_ex (\<lambda>(i, e). i \<noteq> idx \<and> name e = name ent) (enumerate 0 (entries w))
      then Inl (Warning ''Duplicate'')
      else Inl (Raised NameError))"

definition save_selected_changes ::
  "('d, 'l) MainWindow \<Rightarrow> ('d, 'l) TypeEntry option \<Rightarrow> nat option \<Rightarrow>
   ('d, 'l) TypeEntry option \<Rightarrow> outcome \<times> ('d, 'l) MainWindow" where
  "save_selected_changes w collected cur editor_current =
     (case collected of
        None \<Rightarrow> (Returned, w)
      | Some ent \<Rightarrow>
          (case (case cur of
                   None \<Rightarrow> save_add w ent
                 | Some idx \<Rightarrow>
                     (case editor_current of
                        None \<Rightarrow> save_add w ent
                      | Some c \<Rightarrow> save_update w ent idx)) of
             Inl out \<Rightarrow> (out, w)
           | Inr w1 \<Rightarrow> (Completed, update_category_pool ent w1)))"

fun import_loop ::
  "elem list \<Rightarrow> entry list \<Rightarrow> string set \<Rightarrow> error + (entry list \<times> string set)" where
  \<comment> \<open>\<^verbatim>\<open>for t in root.findall("type"): ...\<close>\<close>
  "import_loop [] ents cats = Inr (ents, cats)"
| "import_loop (t # ts) ents cats =
     bindE (from_xml t) (\<lambda>e.
       import_loop ts (ents @ [e])
         (case category e of
            None \<Rightarrow> cats
          | Some c \<Rightarrow> if c \<noteq> [] then insert c cats else cats))"

definition action_import ::
  "((string \<times> int) list, string list) MainWindow \<Rightarrow> string \<Rightarrow> error + elem \<Rightarrow>
   outcome \<times> ((string \<times> int) list, string list) MainWindow" where
  \<comment> \<open>every exception inside the \<^verbatim>\<open>try\<close> is caught and reported as "Import Failed"\<close>
  "action_import w path parsed =
     (if path = [] then (Returned, w)
      else
        (case bindE parsed (\<lambda>root.
                if tag root \<noteq> ''types'' then Inl ValueError
                else import_loop (findall root ''type'') [] {}) of
           Inl err \<Rightarrow> (Critical ''Import Failed'' err, w)
         | Inr (ents, cats) \<Rightarrow>
             (Completed,
              w\<lparr>entries := ents,
                category_pool := sorted_list_of_set (set CATEGORY_PRESETS \<union> cats)\<rparr>)))"

section \<open>\<^verbatim>\<open>MainWindow.duplicate_type\<close> over a store\<close>

text \<open>
  \<^verbatim>\<open>duplicate_type\<close> builds the copy with \<^verbatim>\<open>dict(src.flags)\<close> and \<^verbatim>\<open>list(src.usages)\<close>, new
  objects with the same contents. To tell a copy from a second reference to the same
  object, the dictionaries and lists live in a store, and an entry holds their addresses.
  Strings and integers are immutable and stay values.
\<close>

type_synonym ref = nat

record store =
  dict_at :: "ref \<Rightarrow> (string \<times> int) list"
  list_at :: "ref \<Rightarrow> string list"
  next_ref :: ref

type_synonym entry_obj = "(ref, ref) TypeEntry"

definition new_dict :: "store \<Rightarrow> (string \<times> int) list \<Rightarrow> ref \<times> store" where
  "new_dict st d =
     (next_ref st, st\<lparr>dict_at := (dict_at st)(next_ref st := d), next_ref := Suc (next_ref st)\<rparr>)"

definition new_list :: "store \<Rightarrow> string list \<Rightarrow> ref \<times> store" where
  "new_list st l =
     (next_ref st, st\<lparr>list_at := (list_at st)(next_ref st := l), next_ref := Suc (next_ref st)\<rparr>)"

definition store_dict :: "store \<Rightarrow> ref \<Rightarrow> (string \<times> int) list \<Rightarrow> store" where
  \<comment> \<open>any mutation of the dictionary at an address\<close>
  "store_dict st r d = st\<lparr>dict_at := (dict_at st)(r := d)\<rparr>"

definition store_list :: "store \<Rightarrow> ref \<Rightarrow> string list \<Rightarrow> store" where
  \<comment> \<open>any mutation of the list at an address\<close>
  "store_list st r l = st\<lparr>list_at := (list_at st)(r := l)\<rparr>"

definition view :: "store \<Rightarrow> entry_obj \<Rightarrow> entry" where
  \<comment> \<open>the contents of an entry in a store\<close>
  "view st e =
     \<lparr>name = name e, nominal = nominal e, lifetime = lifetime e, restock = restock e,
      min_field = min_field e, quantmin = quantmin e, quantmax = quantmax e, cost = cost e,
      flags = dict_at st (flags e), category = category e, usages = list_at st (usages e),
      values_field = list_at st (values_field e), tags = list_at st (tags e)\<rparr>"

definition allocated :: "store \<Rightarrow> entry_obj \<Rightarrow> bool" where
  \<comment> \<open>the addresses an entry holds have been allocated\<close>
  "allocated st e =
     (flags e < next_ref st \<and> usages e < next_ref st \<and> values_field e < next_ref st \<and>
      tags e < next_ref st)"

definition duplicate_type ::
  "store \<Rightarrow> (ref, ref) MainWindow \<Rightarrow> nat option \<Rightarrow> outcome \<times> store \<times> (ref, ref) MainWindow" where
  \<comment> \<open>\<^verbatim>\<open>self.entries[idx]\<close> raises \<^verbatim>\<open>IndexError\<close> out of range; \<^verbatim>\<open>insert(idx + 1, dup)\<close>\<close>
  "duplicate_type st w cur =
     (case cur of
        None \<Rightarrow> (Returned, st, w)
      | Some idx \<Rightarrow>
          if idx < length (entries w) then
            (let src = entries w ! idx;
                 (fr, st1) = new_dict st (dict_at st (flags src));
                 (ur, st2) = new_list st1 (list_at st1 (usages src));
                 (vr, st3) = new_list st2 (list_at st2 (values_field src));
                 (tr, st4) = new_list st3 (list_at st3 (tags src));
                 dup = \<lparr>name = name src @ ''_Copy'', nominal = nominal src,
                        lifetime = lifetime src, restock = restock src,
                        min_field = min_field src, quantmin = quantmin src,
                        quantmax = quantmax src, cost = cost src, flags = fr,
                        category = category src, usages = ur, values_field = vr, tags = tr\<rparr>
             in (Completed, st4,
                 w\<lparr>entries := take (idx + 1) (entries w) @ dup # drop (idx + 1) (entries w)\<rparr>))
          else (Raised IndexError, st, w))"

section \<open>Example inputs\<close>

definition ex_entry :: entry where
  "ex_entry =
     \<lparr>name = ''AKM'', nominal = Some 10, lifetime = Some 7200, restock = None,
      min_field = Some 5, quantmin = Some (- 1), quantmax = Some (- 1), cost = Some 100,
      flags = default_flags, category = Some ''weapons'',
      usages = [''Military'', ''Police''], values_field = [''Tier3'', ''Tier4''],
      tags = [''shelves'']\<rparr>"

definition ex_blank_usage :: entry where
  "ex_blank_usage =
     \<lparr>name = ''Rag'', nominal = Some 3, lifetime = None, restock = None,
      min_field = None, quantmin = None, quantmax = None, cost = None,
      flags = default_flags, category = None,
      usages = [[]], values_field = [], tags = []\<rparr>"

definition ex_bare :: entry where
  "ex_bare =
     \<lparr>name = ''Stone'', nominal = None, lifetime = None, restock = None,
      min_field = None, quantmin = None, quantmax = None, cost = None,
      flags = default_flags, category = None, usages = [], values_field = [], tags = []\<rparr>"

definition ex_empty_category :: entry where
  "ex_empty_category =
     \<lparr>name = ''Stick'', nominal = Some 0, lifetime = None, restock = None,
      min_field = None, quantmin = None, quantmax = None, cost = None,
      flags = default_flags, category = Some [], usages = [], values_field = [], tags = []\<rparr>"

definition ex_garbled :: elem where
  "ex_garbled =
     Element ''type'' [(''name'', ''Barrel'')] None
       [Element ''nominal'' [] (Some '' twelve '') [],
        Element ''lifetime'' [] None [],
        Element ''cost'' [] (Some '' 40 '') [],
        Element ''flags'' [(''crafted'', ''yes''), (''deloot'', ''1''), (''extra'', ''1'')] None []]"

definition ex_flag_node :: elem where
  "ex_flag_node =
     Element ''type'' [(''name'', ''Barrel'')] None
       [Element ''flags''
          [(''count_in_cargo'', ''0''), (''count_in_hoarder'', ''0''), (''count_in_map'', ''1''),
           (''count_in_player'', ''0''), (''crafted'', ''2''), (''deloot'', ''0'')] None []]"

definition ex_flag_entry :: entry where
  "ex_flag_entry =
     \<lparr>name = ''Barrel'', nominal = None, lifetime = None, restock = None,
      min_field = None, quantmin = None, quantmax = None, cost = None,
      flags = [(''count_in_cargo'', 0), (''count_in_hoarder'', 0), (''count_in_map'', 1),
               (''count_in_player'', 0), (''crafted'', 2), (''deloot'', 0)],
      category = None, usages = [], values_field = [], tags = []\<rparr>"

definition ex_window :: "((string \<times> int) list, string list) MainWindow" where
  "ex_window = \<lparr>entries = [ex_entry, ex_bare], category_pool = [''weapons'']\<rparr>"

definition ex_same_name :: entry where
  "ex_same_name =
     \<lparr>name = ''Stone'', nominal = Some 4, lifetime = None, restock = None,
      min_field = None, quantmin = None, quantmax = None, cost = None,
      flags = default_flags, category = Some ''tools'', usages = [], values_field = [], tags = []\<rparr>"

definition ex_renamed :: entry where
  "ex_renamed =
     \<lparr>name = ''AK74'', nominal = Some 10, lifetime = Some 7200, restock = None,
      min_field = Some 5, quantmin = Some (- 1), quantmax = Some (- 1), cost = Some 100,
      flags = default_flags, category = Some ''weapons'',
      usages = [''Military'', ''Police''], values_field = [''Tier3'', ''Tier4''],
      tags = [''shelves'']\<rparr>"

definition ex_items_doc :: elem where
  "ex_items_doc = Element ''items'' [] None [to_xml ex_same_name]"

definition ex_doc1 :: elem where
  "ex_doc1 =
     Element ''types'' [] None
       [Element ''type'' [(''name'', ''Apple'')] None
          [Element ''category'' [(''name'', ''orchard'')] None []],
        Element ''type'' [(''name'', ''Knife'')] None
          [Element ''category'' [(''name'', ''tools'')] None []],
        Element ''type'' [(''name'', ''Flare'')] None
          [Element ''category'' [(''name'', ''signal'')] None []]]"

definition ex_doc2 :: elem where
  "ex_doc2 =
     Element ''types'' [] None
       [Element ''type'' [(''name'', ''Flare'')] None
          [Element ''category'' [(''name'', ''signal'')] None []],
        Element ''type'' [(''name'', ''Tent'')] None
          [Element ''category'' [(''name'', ''camping'')] None []]]"

definition ex_store :: store where
  "ex_store =
     \<lparr>dict_at = (\<lambda>r. [])(0 := default_flags),
      list_at = (\<lambda>r. [])(1 := [''Military'', ''Police''], 2 := [''Tier3'']),
      next_ref = 4\<rparr>"

definition ex_obj :: entry_obj where
  "ex_obj =
     \<lparr>name = ''AKM'', nominal = Some 10, lifetime = Some 7200, restock = None,
      min_field = Some 5, quantmin = Some (- 1), quantmax = Some (- 1), cost = Some 100,
      flags = 0, category = Some ''weapons'', usages = 1, values_field = 2, tags = 3\<rparr>"

definition ex_obj_window :: "(ref, ref) MainWindow" where
  "ex_obj_window = \<lparr>entries = [ex_obj], category_pool = [''weapons'']\<rparr>"

section \<open>Integers as text\<close>

declare str_nat.simps [simp del]

lemma digit_char_props: "d < 10 \<Longrightarrow> is_digit (digit_char d) \<and> digit_val (digit_char d) = d"
proof -
  assume "d < 10"
  then have "d \<in> {0, 1, 2, 3, 4, 5, 6, 7, 8, 9}" by auto
  then show ?thesis by (auto simp: is_digit_def digit_char_def digit_val_def)
qed

lemma py_digits_str_nat:
  "py_digits (str_nat n @ ys) acc p = py_digits ys (acc * 10 ^ length (str_nat n) + n) True"
proof (induction n arbitrary: ys acc p rule: str_nat.induct)
  case (1 n)
  show ?case
  proof (cases "n < 10")
    case True
    then show ?thesis by (simp add: str_nat.simps[of n] digit_char_props mult.commute)
  next
    case False
    have "py_digits (str_nat n @ ys) acc p =
          py_digits (str_nat (n div 10) @ (digit_char (n mod 10) # ys)) acc p"
      using False by (simp add: str_nat.simps[of n])
    also have "\<dots> = py_digits (digit_char (n mod 10) # ys)
                       (acc * 10 ^ length (str_nat (n div 10)) + n div 10) True"
      using "1.IH"[OF False] by simp
    also have "\<dots> = py_digits ys (acc * 10 ^ length (str_nat n) + n) True"
      using False by (simp add: str_nat.simps[of n] digit_char_props algebra_simps)
    finally show ?thesis .
  qed
qed

lemma str_nat_digits: "c \<in> set (str_nat n) \<Longrightarrow> is_digit c"
  by (induction n rule: str_nat.induct)
     (subst (asm) str_nat.simps, auto simp: digit_char_props split: if_splits)

lemma str_nat_nonempty: "str_nat n \<noteq> []"
  by (subst str_nat.simps) simp

lemma digit_not_space: "is_digit c \<Longrightarrow> \<not> is_space c"
  by (auto simp: is_digit_def is_space_def)

lemma digit_not_sign: "is_digit c \<Longrightarrow> c \<noteq> CHR ''-'' \<and> c \<noteq> CHR ''+''"
  by (auto simp: is_digit_def)

lemma strip_Nil [simp]: "strip [] = []"
  by (simp add: strip_def)

lemma strip_unchanged:
  assumes "s \<noteq> []" "\<not> is_space (hd s)" "\<not> is_space (last s)"
  shows "strip s = s"
proof -
  have front: "dropWhile is_space s = s"
    using assms by (simp add: dropWhile_eq_self_iff)
  have rear: "dropWhile is_space (rev s) = rev s"
    using assms by (simp add: dropWhile_eq_self_iff hd_rev)
  show ?thesis by (simp add: strip_def front rear)
qed

lemma py_str_nonempty: "py_str n \<noteq> []"
  by (simp add: py_str_def str_nat_nonempty)

lemma strip_py_str: "strip (py_str n) = py_str n"
proof (rule strip_unchanged[OF py_str_nonempty])
  show "\<not> is_space (hd (py_str n))"
    using str_nat_digits[of "hd (str_nat (nat n))" "nat n"] str_nat_nonempty[of "nat n"]
    by (auto simp: py_str_def is_space_def dest: digit_not_space)
  have "last (py_str n) \<in> set (str_nat (nat \<bar>n\<bar>))"
    using str_nat_nonempty by (auto simp: py_str_def abs_if)
  then show "\<not> is_space (last (py_str n))"
    using str_nat_digits digit_not_space by blast
qed

text \<open>\<^verbatim>\<open>int(str(n)) == n\<close> for every integer.\<close>

lemma py_int_py_str: "py_int (py_str n) = Inr n"
proof (cases "n < 0")
  case True
  have "py_digits (str_nat (nat (- n))) 0 False = Some (nat (- n))"
    using py_digits_str_nat[of "nat (- n)" "[]" 0 False] by simp
  with True show ?thesis
    unfolding py_int_def strip_py_str by (simp add: py_str_def)
next
  case False
  obtain c cs where cs: "str_nat (nat n) = c # cs"
    using str_nat_nonempty by (cases "str_nat (nat n)") auto
  then have "is_digit c" using str_nat_digits[of c "nat n"] by simp
  then have sg: "c \<noteq> CHR ''-''" "c \<noteq> CHR ''+''" using digit_not_sign by auto
  have "py_digits (str_nat (nat n)) 0 False = Some (nat n)"
    using py_digits_str_nat[of "nat n" "[]" 0 False] by simp
  with False cs sg show ?thesis
    unfolding py_int_def strip_py_str by (simp add: py_str_def)
qed

lemma py_int_raises_ValueError_only: "py_int s = Inl err \<Longrightarrow> err = ValueError"
  by (auto simp: py_int_def split: list.splits if_splits option.splits)

lemmas eval_simps =
  py_int_def py_str_def strip_def is_space_def is_digit_def digit_val_def digit_char_def
  str_nat.simps get_int_def read_flag_def bindE_def names_of_def map_filter_simps
  from_xml_def to_xml_def put_int_def flags_child_def named_child_def elem_set_def
  SubElement_def elem_find_def findall_def truthy_def default_flags_def Let_def

section \<open>Saving an entry\<close>

lemma save_add_duplicate:
  "name ent \<in> name ` set (entries w) \<Longrightarrow> save_add w ent = Inl (Warning ''Duplicate'')"
  by (auto simp: save_add_def list_ex_iff)

text \<open>
  With a current item and a loaded editor entry, saving never completes and never changes
  the collection: a colliding name is refused, and otherwise the assignment raises.
\<close>

lemma save_update_never_stores:
  "save_selected_changes w collected (Some idx) (Some c) = (out, w') \<Longrightarrow>
   w' = w \<and> out \<noteq> Completed"
  by (auto simp: save_selected_changes_def save_update_def split: option.splits if_splits)

text \<open>
  C2 (the defect). A position is selected and the saved name collides with no other
  entry, so the entry at the selected position should be replaced in place, as the
  source's comment "prevent renaming to an existing name (other than self)" intends. In
  \<^const>\<open>ex_window\<close> the first entry is selected and saved under the unused name
  \<^verbatim>\<open>AK74\<close>: the operation ends in \<^verbatim>\<open>NameError\<close> and the collection still holds the old
  entry.
\<close>

theorem C2_update_raises_NameError:
  "save_selected_changes ex_window (Some ex_renamed) (Some 0) (Some ex_entry) =
     (Raised NameError, ex_window)"
  by (simp add: save_selected_changes_def save_update_def ex_window_def ex_renamed_def
        ex_entry_def ex_bare_def enumerate_eq_zip)

text \<open>
  C6. Without a selection the save adds; when an entry of the collection already has the
  name, the save answers with the "Duplicate" warning and the state (the entries and the
  category pool, so also the length of the collection) is the one before.
\<close>

theorem C6_add_duplicate_rejected:
  assumes "cur = None \<or> editor_current = None"
    and "name ent \<in> name ` set (entries w)"
  shows "save_selected_changes w (Some ent) cur editor_current = (Warning ''Duplicate'', w)"
  using assms
  by (auto simp: save_selected_changes_def save_add_duplicate split: option.splits)

theorem C6_add_duplicate_rejected_witness:
  "save_selected_changes ex_window (Some ex_same_name) None None =
     (Warning ''Duplicate'', ex_window)"
  using C6_add_duplicate_rejected[of None None ex_same_name ex_window]
  by (simp add: ex_window_def ex_same_name_def ex_entry_def ex_bare_def)

section \<open>Importing a document\<close>

text \<open>
  C7. A document whose root tag is not \<^verbatim>\<open>types\<close> makes the import fail: the
  \<^verbatim>\<open>ValueError\<close> raised for the root is reported as "Import Failed", and the entries and
  the category pool are the ones before.
\<close>

theorem C7_import_rejects_other_root:
  assumes "path \<noteq> []" and "tag root \<noteq> ''types''"
  shows "action_import w path (Inr root) = (Critical ''Import Failed'' ValueError, w)"
  using assms by (simp add: action_import_def bindE_def)

theorem C7_import_rejects_other_root_witness:
  "action_import ex_window ''types.xml'' (Inr ex_items_doc) =
     (Critical ''Import Failed'' ValueError, ex_window)"
  using C7_import_rejects_other_root[of "''types.xml''" ex_items_doc ex_window]
  by (simp add: ex_items_doc_def)

section \<open>The element that \<^const>\<open>to_xml\<close> builds\<close>

lemma SubElement_sel [simp]:
  "tag (SubElement t c) = tag t" "attrib (SubElement t c) = attrib t"
  "etext (SubElement t c) = etext t" "children (SubElement t c) = children t @ [c]"
  by (simp_all add: SubElement_def)

lemma put_int_sel [simp]:
  "tag (put_int tg v t) = tag t" "attrib (put_int tg v t) = attrib t"
  "etext (put_int tg v t) = etext t" "children (put_int tg v t) = children t @ int_child tg v"
  by (simp_all add: put_int_def int_child_def split: option.splits)

lemma fold_SubElement_sel [simp]:
  "tag (fold (\<lambda>u t. SubElement t (f u)) us t) = tag t"
  "attrib (fold (\<lambda>u t. SubElement t (f u)) us t) = attrib t"
  "etext (fold (\<lambda>u t. SubElement t (f u)) us t) = etext t"
  "children (fold (\<lambda>u t. SubElement t (f u)) us t) = children t @ map f us"
  by (induction us arbitrary: t) simp_all

lemma fold_elem_set_sel:
  "tag (fold (\<lambda>(k, v) f. elem_set f k (g v)) fl e) = tag e"
  "etext (fold (\<lambda>(k, v) f. elem_set f k (g v)) fl e) = etext e"
  "children (fold (\<lambda>(k, v) f. elem_set f k (g v)) fl e) = children e"
  "attrib (fold (\<lambda>(k, v) f. elem_set f k (g v)) fl e) =
     fold (\<lambda>(k, v) a. AList.update k (g v) a) fl (attrib e)"
  by (induction fl arbitrary: e) (simp_all add: elem_set_def split: prod.splits)

lemma flags_child_sel [simp]:
  "tag (flags_child fl) = ''flags''" "etext (flags_child fl) = None"
  "children (flags_child fl) = []"
  "attrib (flags_child fl) = fold (\<lambda>(k, v) a. AList.update k (py_str v) a) fl []"
  by (simp_all add: flags_child_def fold_elem_set_sel)

lemma named_child_sel [simp]:
  "tag (named_child tg n) = tg" "attrib (named_child tg n) = [(''name'', n)]"
  "etext (named_child tg n) = None" "children (named_child tg n) = []"
  by (simp_all add: named_child_def)

lemma to_xml_sel:
  "tag (to_xml r) = ''type''"
  "attrib (to_xml r) = [(''name'', name r)]"
  "children (to_xml r) =
     int_child ''nominal'' (nominal r) @ int_child ''lifetime'' (lifetime r) @
     int_child ''restock'' (restock r) @ int_child ''min'' (min_field r) @
     int_child ''quantmin'' (quantmin r) @ int_child ''quantmax'' (quantmax r) @
     int_child ''cost'' (cost r) @ [flags_child (flags r)] @ category_child (category r) @
     map (named_child ''usage'') (usages r) @ map (named_child ''value'') (values_field r) @
     map (named_child ''tag'') (tags r)"
  by (simp_all add: to_xml_def Let_def truthy_def category_child_def split: option.splits)

subsection \<open>Looking children up\<close>

lemma find_append:
  "List.find P (xs @ ys) = (case List.find P xs of None \<Rightarrow> List.find P ys | Some x \<Rightarrow> Some x)"
  by (induction xs) simp_all

lemma find_int_child:
  "List.find (\<lambda>c. tag c = tg) (int_child tg' v) =
     (if tg' = tg then map_option (\<lambda>n. Element tg' [] (Some (py_str n)) []) v else None)"
  by (simp add: int_child_def split: option.splits)

lemma find_category_child:
  "List.find (\<lambda>c. tag c = tg) (category_child cat) =
     (if tg = ''category'' then
        (case cat of
           None \<Rightarrow> None
         | Some c \<Rightarrow> if c \<noteq> [] then Some (named_child ''category'' c) else None)
      else None)"
  by (simp add: category_child_def split: option.splits)

lemma find_named_children:
  "tg' \<noteq> tg \<Longrightarrow> List.find (\<lambda>c. tag c = tg) (map (named_child tg') us) = None"
  by (induction us) simp_all

lemma filter_int_child:
  "filter (\<lambda>c. tag c = tg) (int_child tg' v) = (if tg' = tg then int_child tg' v else [])"
  by (simp add: int_child_def split: option.splits)

lemma filter_category_child:
  "filter (\<lambda>c. tag c = tg) (category_child cat) =
     (if tg = ''category'' then category_child cat else [])"
  by (simp add: category_child_def split: option.splits)

lemma filter_named_children:
  "filter (\<lambda>c. tag c = tg) (map (named_child tg') us) =
     (if tg' = tg then map (named_child tg') us else [])"
  by (induction us) simp_all

lemma names_of_named_children:
  "names_of (map (named_child tg) us) = filter (\<lambda>u. u \<noteq> []) us"
  by (induction us) (simp_all add: names_of_def map_filter_simps)

lemmas find_children = find_append find_int_child find_category_child find_named_children

lemmas filter_children = filter_int_child filter_category_child filter_named_children

lemma find_flags_to_xml: "elem_find (to_xml r) ''flags'' = Some (flags_child (flags r))"
  by (simp add: elem_find_def to_xml_sel find_children)

lemma find_category_to_xml:
  "elem_find (to_xml r) ''category'' =
     (case category r of
        None \<Rightarrow> None
      | Some c \<Rightarrow> if c \<noteq> [] then Some (named_child ''category'' c) else None)"
  by (simp add: elem_find_def to_xml_sel find_children split: option.splits)

lemma findall_to_xml:
  "findall (to_xml r) ''usage'' = map (named_child ''usage'') (usages r)"
  "findall (to_xml r) ''value'' = map (named_child ''value'') (values_field r)"
  "findall (to_xml r) ''tag'' = map (named_child ''tag'') (tags r)"
  by (simp_all add: findall_def to_xml_sel filter_children)

text \<open>
  C4. When an optional integer field is \<^verbatim>\<open>None\<close>, the serialised element has no child
  with that field's tag: neither one with text \<^verbatim>\<open>0\<close> nor an empty one.
\<close>

theorem C4_absent_field_no_child:
  "(nominal r = None \<longrightarrow> findall (to_xml r) ''nominal'' = []) \<and>
   (lifetime r = None \<longrightarrow> findall (to_xml r) ''lifetime'' = []) \<and>
   (restock r = None \<longrightarrow> findall (to_xml r) ''restock'' = []) \<and>
   (min_field r = None \<longrightarrow> findall (to_xml r) ''min'' = []) \<and>
   (quantmin r = None \<longrightarrow> findall (to_xml r) ''quantmin'' = []) \<and>
   (quantmax r = None \<longrightarrow> findall (to_xml r) ''quantmax'' = []) \<and>
   (cost r = None \<longrightarrow> findall (to_xml r) ''cost'' = [])"
proof -
  have absent: "int_child tg None = []" for tg
    by (simp add: int_child_def)
  show ?thesis
    by (simp add: findall_def to_xml_sel filter_children absent)
qed

theorem C4_absent_field_no_child_witness:
  "findall (to_xml ex_bare) ''nominal'' = [] \<and> findall (to_xml ex_bare) ''lifetime'' = [] \<and>
   findall (to_xml ex_bare) ''restock'' = [] \<and> findall (to_xml ex_bare) ''min'' = [] \<and>
   findall (to_xml ex_bare) ''quantmin'' = [] \<and> findall (to_xml ex_bare) ''quantmax'' = [] \<and>
   findall (to_xml ex_bare) ''cost'' = []"
  using C4_absent_field_no_child[of ex_bare] by (simp add: ex_bare_def)

subsection \<open>The flags child\<close>

lemma fold_update_fresh:
  "distinct (map fst fl) \<Longrightarrow> set (map fst fl) \<inter> set (map fst a) = {} \<Longrightarrow>
   fold (\<lambda>(k, v) a. AList.update k (g v) a) fl a = a @ map (\<lambda>(k, v). (k, g v)) fl"
proof (induction fl arbitrary: a)
  case Nil
  show ?case by simp
next
  case (Cons p fl)
  obtain k v where p: "p = (k, v)" by (cases p)
  have fresh: "k \<notin> fst ` set a"
    using Cons.prems(2) p by auto
  have step: "AList.update k (g v) a = a @ [(k, g v)]"
    using fresh by (induction a) auto
  have "set (map fst fl) \<inter> set (map fst (a @ [(k, g v)])) = {}"
    using Cons.prems p by auto
  moreover have "distinct (map fst fl)"
    using Cons.prems(1) by simp
  ultimately show ?case
    using Cons.IH[of "a @ [(k, g v)]"] p step by simp
qed

text \<open>
  The flags child is always there, as the first child tagged \<^verbatim>\<open>flags\<close>, with one attribute
  for each key of the dictionary, in its order, holding \<^verbatim>\<open>str(int(v))\<close>.
\<close>

lemma flags_always_emitted:
  assumes "distinct (map fst (flags r))"
  shows "\<exists>f. elem_find (to_xml r) ''flags'' = Some f \<and>
            attrib f = map (\<lambda>(k, v). (k, py_str v)) (flags r)"
  using assms by (simp add: find_flags_to_xml fold_update_fresh)

text \<open>
  C5 (the defect). Every entry should be written with the six flag attributes, each
  \<^verbatim>\<open>0\<close> or \<^verbatim>\<open>1\<close>. The entry that \<^const>\<open>from_xml\<close> reads from a node whose flags carry
  \<^verbatim>\<open>crafted="2"\<close> keeps the integer 2, and \<^const>\<open>to_xml\<close> writes it back as \<^verbatim>\<open>"2"\<close>.
\<close>

theorem C5_flag_written_as_parsed:
  "from_xml ex_flag_node = Inr ex_flag_entry \<and>
   elem_find (to_xml ex_flag_entry) ''flags'' =
     Some (Element ''flags''
             [(''count_in_cargo'', ''0''), (''count_in_hoarder'', ''0''), (''count_in_map'', ''1''),
              (''count_in_player'', ''0''), (''crafted'', ''2''), (''deloot'', ''0'')] None [])"
  by (simp add: ex_flag_node_def ex_flag_entry_def eval_simps)

section \<open>Parsing never raises\<close>

lemma get_int_total: "\<exists>v. get_int e tg = Inr v"
  by (auto simp: get_int_def split: option.splits sum.splits
        dest: py_int_raises_ValueError_only)

lemma get_int_missing: "elem_find e tg = None \<Longrightarrow> get_int e tg = Inr None"
  by (simp add: get_int_def)

lemma get_int_unparseable:
  assumes "elem_find e tg = Some t"
    and "\<forall>n. py_int (strip (case etext t of None \<Rightarrow> [] | Some x \<Rightarrow> x)) \<noteq> Inr n"
  shows "get_int e tg = Inr None"
  using assms
  by (auto simp: get_int_def split: option.splits sum.splits dest: py_int_raises_ValueError_only)

lemma read_flag_cases:
  "read_flag fe k fl =
     Inr (case map_of (attrib fe) k of
            None \<Rightarrow> fl
          | Some v \<Rightarrow> (case py_int v of Inr n \<Rightarrow> AList.update k n fl | Inl err \<Rightarrow> fl))"
  by (auto simp: read_flag_def split: option.splits sum.splits dest: py_int_raises_ValueError_only)

lemma read_flags_fold:
  "read_flags fe ks fl =
     Inr (fold (\<lambda>k fl. case map_of (attrib fe) k of
                          None \<Rightarrow> fl
                        | Some v \<Rightarrow> (case py_int v of Inr n \<Rightarrow> AList.update k n fl | Inl err \<Rightarrow> fl))
            ks fl)"
  by (induction ks arbitrary: fl) (simp_all add: read_flag_cases bindE_def)

lemma from_xml_total: "\<exists>r. from_xml e = Inr r"
proof -
  obtain v1 v2 v3 v4 v5 v6 v7 where
    "get_int e ''nominal'' = Inr v1" "get_int e ''lifetime'' = Inr v2"
    "get_int e ''restock'' = Inr v3" "get_int e ''min'' = Inr v4"
    "get_int e ''quantmin'' = Inr v5" "get_int e ''quantmax'' = Inr v6"
    "get_int e ''cost'' = Inr v7"
    using get_int_total by metis
  then show ?thesis
    by (simp add: from_xml_def bindE_def Let_def read_flags_fold split: option.splits)
qed

lemma from_xml_fields:
  assumes "from_xml e = Inr r"
  shows "get_int e ''nominal'' = Inr (nominal r)" "get_int e ''lifetime'' = Inr (lifetime r)"
    "get_int e ''restock'' = Inr (restock r)" "get_int e ''min'' = Inr (min_field r)"
    "get_int e ''quantmin'' = Inr (quantmin r)" "get_int e ''quantmax'' = Inr (quantmax r)"
    "get_int e ''cost'' = Inr (cost r)"
    "name r = (case map_of (attrib e) ''name'' of None \<Rightarrow> [] | Some v \<Rightarrow> v)"
    "case elem_find e ''flags'' of
       None \<Rightarrow> flags r = default_flags
     | Some fe \<Rightarrow> read_flags fe (map fst default_flags) default_flags = Inr (flags r)"
    "category r =
       (case elem_find e ''category'' of None \<Rightarrow> None | Some ce \<Rightarrow> map_of (attrib ce) ''name'')"
    "usages r = names_of (findall e ''usage'')"
    "values_field r = names_of (findall e ''value'')"
    "tags r = names_of (findall e ''tag'')"
  using assms
  by (auto simp: from_xml_def bindE_def Let_def split: sum.splits option.splits)

lemma map_of_reread:
  "map_of (fold (\<lambda>k fl. case m k of
                           None \<Rightarrow> fl
                         | Some v \<Rightarrow> (case py_int v of Inr n \<Rightarrow> AList.update k n fl | Inl err \<Rightarrow> fl))
             ks fl) x =
     (if x \<in> set ks then
        (case m x of
           None \<Rightarrow> map_of fl x
         | Some v \<Rightarrow> (case py_int v of Inr n \<Rightarrow> Some n | Inl err \<Rightarrow> map_of fl x))
      else map_of fl x)"
  by (induction ks arbitrary: fl) (auto simp: update_conv' split: option.splits sum.splits)

lemma read_flags_unparseable:
  assumes "read_flags fe (map fst default_flags) default_flags = Inr fl"
    and "map_of default_flags k = Some d" and "map_of (attrib fe) k = Some v"
    and "\<forall>n. py_int v \<noteq> Inr n"
  shows "map_of fl k = Some d"
proof -
  have "fl = fold (\<lambda>k a. case map_of (attrib fe) k of
                          None \<Rightarrow> a
                        | Some v \<Rightarrow> (case py_int v of Inr n \<Rightarrow> AList.update k n a | Inl err \<Rightarrow> a))
                     (map fst default_flags) default_flags"
    using assms(1) by (simp add: read_flags_fold)
  moreover have "k \<in> set (map fst default_flags)"
    using assms(2) by (metis map_of_eq_None_iff option.distinct(1) set_map)
  moreover have "\<exists>err. py_int v = Inl err"
    using assms(4) by (cases "py_int v") auto
  ultimately show ?thesis
    using assms(2,3) by (auto simp: map_of_reread)
qed

text \<open>
  C8. \<^const>\<open>from_xml\<close> returns an entry for every node. Its integer fields are what
  \<^const>\<open>get_int\<close> returns for their tags; \<^const>\<open>get_int\<close> returns \<^verbatim>\<open>None\<close> when the child
  is missing, and also when the child is there and its text (\<^verbatim>\<open>None\<close> counting as empty)
  does not strip to something \<^verbatim>\<open>int\<close> accepts. A flags attribute under one of the six keys
  with a value that \<^verbatim>\<open>int\<close> rejects leaves that flag at its default.
\<close>

theorem C8_from_xml_never_raises:
  "\<exists>r. from_xml e = Inr r \<and>
       get_int e ''nominal'' = Inr (nominal r) \<and> get_int e ''lifetime'' = Inr (lifetime r) \<and>
       get_int e ''restock'' = Inr (restock r) \<and> get_int e ''min'' = Inr (min_field r) \<and>
       get_int e ''quantmin'' = Inr (quantmin r) \<and> get_int e ''quantmax'' = Inr (quantmax r) \<and>
       get_int e ''cost'' = Inr (cost r) \<and>
       (\<forall>tg. elem_find e tg = None \<longrightarrow> get_int e tg = Inr None) \<and>
       (\<forall>tg t. elem_find e tg = Some t \<longrightarrow>
          (\<forall>n. py_int (strip (case etext t of None \<Rightarrow> [] | Some x \<Rightarrow> x)) \<noteq> Inr n) \<longrightarrow>
          get_int e tg = Inr None) \<and>
       (\<forall>fe k d v. elem_find e ''flags'' = Some fe \<longrightarrow> map_of default_flags k = Some d \<longrightarrow>
          map_of (attrib fe) k = Some v \<longrightarrow> (\<forall>n. py_int v \<noteq> Inr n) \<longrightarrow>
          map_of (flags r) k = Some d)"
proof -
  obtain r where r: "from_xml e = Inr r"
    using from_xml_total by blast
  have "map_of (flags r) k = Some d"
    if "elem_find e ''flags'' = Some fe" "map_of default_flags k = Some d"
      "map_of (attrib fe) k = Some v" "\<forall>n. py_int v \<noteq> Inr n" for fe k d v
    using from_xml_fields(9)[OF r] that by (simp add: read_flags_unparseable)
  with r from_xml_fields(1-7)[OF r] get_int_missing get_int_unparseable
  show ?thesis by blast
qed

theorem C8_from_xml_never_raises_witness:
  "\<exists>r. from_xml ex_garbled = Inr r \<and> nominal r = None \<and> lifetime r = None \<and>
       restock r = None \<and> map_of (flags r) ''crafted'' = Some 0"
proof -
  let ?fe = "Element ''flags'' [(''crafted'', ''yes''), (''deloot'', ''1''), (''extra'', ''1'')] None []"
  have nominal: "elem_find ex_garbled ''nominal'' = Some (Element ''nominal'' [] (Some '' twelve '') [])"
    and lifetime: "elem_find ex_garbled ''lifetime'' = Some (Element ''lifetime'' [] None [])"
    and restock: "elem_find ex_garbled ''restock'' = None"
    and fe: "elem_find ex_garbled ''flags'' = Some ?fe"
    by (simp_all add: ex_garbled_def elem_find_def)
  have bad: "\<forall>n. py_int (strip '' twelve '') \<noteq> Inr n" "\<forall>n. py_int (strip []) \<noteq> Inr n"
    "\<forall>n. py_int ''yes'' \<noteq> Inr n"
    by (simp_all add: py_int_def strip_def is_space_def is_digit_def)
  have dflt: "map_of default_flags ''crafted'' = Some 0"
    "map_of (attrib ?fe) ''crafted'' = Some ''yes''"
    by (simp_all add: default_flags_def)
  obtain r where r: "from_xml ex_garbled = Inr r"
    "get_int ex_garbled ''nominal'' = Inr (nominal r)"
    "get_int ex_garbled ''lifetime'' = Inr (lifetime r)"
    "get_int ex_garbled ''restock'' = Inr (restock r)"
    "\<forall>tg. elem_find ex_garbled tg = None \<longrightarrow> get_int ex_garbled tg = Inr None"
    "\<forall>tg t. elem_find ex_garbled tg = Some t \<longrightarrow>
          (\<forall>n. py_int (strip (case etext t of None \<Rightarrow> [] | Some x \<Rightarrow> x)) \<noteq> Inr n) \<longrightarrow>
          get_int ex_garbled tg = Inr None"
    "\<forall>fe k d v. elem_find ex_garbled ''flags'' = Some fe \<longrightarrow> map_of default_flags k = Some d \<longrightarrow>
          map_of (attrib fe) k = Some v \<longrightarrow> (\<forall>n. py_int v \<noteq> Inr n) \<longrightarrow>
          map_of (flags r) k = Some d"
    using C8_from_xml_never_raises[of ex_garbled] by blast
  have "nominal r = None"
    using r(2) r(6)[rule_format, OF nominal] bad(1) by simp
  moreover have "lifetime r = None"
    using r(3) r(6)[rule_format, OF lifetime] bad(2) by simp
  moreover have "restock r = None"
    using r(4) r(5)[rule_format, OF restock] by simp
  moreover have "map_of (flags r) ''crafted'' = Some 0"
    using r(7)[rule_format, OF fe dflt] bad(3) by blast
  ultimately show ?thesis using r(1) by blast
qed

section \<open>Writing an entry and reading it again\<close>

lemma get_int_int_child:
  assumes "elem_find e tg = List.find (\<lambda>c. tag c = tg) (int_child tg v)"
  shows "get_int e tg = Inr v"
  using assms
  by (cases v) (simp_all add: get_int_def int_child_def strip_py_str py_str_nonempty py_int_py_str)

lemma get_int_to_xml:
  "get_int (to_xml r) ''nominal'' = Inr (nominal r)"
  "get_int (to_xml r) ''lifetime'' = Inr (lifetime r)"
  "get_int (to_xml r) ''restock'' = Inr (restock r)"
  "get_int (to_xml r) ''min'' = Inr (min_field r)"
  "get_int (to_xml r) ''quantmin'' = Inr (quantmin r)"
  "get_int (to_xml r) ''quantmax'' = Inr (quantmax r)"
  "get_int (to_xml r) ''cost'' = Inr (cost r)"
  by (rule get_int_int_child, simp add: elem_find_def to_xml_sel find_children split: option.splits)+

lemma from_xml_to_xml:
  "\<exists>fl. read_flags (flags_child (flags r)) (map fst default_flags) default_flags = Inr fl \<and>
        from_xml (to_xml r) =
          Inr \<lparr>name = name r, nominal = nominal r, lifetime = lifetime r, restock = restock r,
               min_field = min_field r, quantmin = quantmin r, quantmax = quantmax r,
               cost = cost r, flags = fl,
               category = (if truthy (category r) then category r else None),
               usages = filter (\<lambda>u. u \<noteq> []) (usages r),
               values_field = filter (\<lambda>u. u \<noteq> []) (values_field r),
               tags = filter (\<lambda>u. u \<noteq> []) (tags r)\<rparr>"
  by (simp add: from_xml_def get_int_to_xml bindE_def Let_def find_flags_to_xml
        find_category_to_xml findall_to_xml names_of_named_children read_flags_fold
        to_xml_sel truthy_def split: option.splits)

lemma map_of_fold_update:
  "map_of (fold (\<lambda>(k, v) a. AList.update k (g v) a) fl a) x =
     (case map_of (rev fl) x of None \<Rightarrow> map_of a x | Some v \<Rightarrow> Some (g v))"
  by (induction fl arbitrary: a)
     (auto simp: update_conv' map_add_def split: option.splits prod.splits)

lemma map_of_rev_distinct: "distinct (map fst fl) \<Longrightarrow> map_of (rev fl) = map_of fl"
  by (rule map_of_inject_set[THEN iffD2]) (simp_all add: rev_map[symmetric])

lemma map_of_flags_attrib:
  "distinct (map fst fl) \<Longrightarrow>
   map_of (fold (\<lambda>(k, v) a. AList.update k (py_str v) a) fl []) x =
     map_option py_str (map_of fl x)"
  by (simp add: map_of_fold_update map_of_rev_distinct split: option.splits)

lemma keys_reread:
  "set ks \<subseteq> set (map fst fl) \<Longrightarrow>
   map fst (fold (\<lambda>k fl. case m k of
                            None \<Rightarrow> fl
                          | Some v \<Rightarrow> (case py_int v of Inr n \<Rightarrow> AList.update k n fl | Inl err \<Rightarrow> fl))
              ks fl) = map fst fl"
proof (induction ks arbitrary: fl)
  case Nil
  show ?case by simp
next
  case (Cons k ks)
  let ?fl = "case m k of
               None \<Rightarrow> fl
             | Some v \<Rightarrow> (case py_int v of Inr n \<Rightarrow> AList.update k n fl | Inl err \<Rightarrow> fl)"
  have keys: "map fst ?fl = map fst fl"
    using Cons.prems by (auto simp: update_keys split: option.splits sum.splits)
  then have "set ks \<subseteq> set (map fst ?fl)"
    using Cons.prems by simp
  from Cons.IH[OF this] keys show ?case by simp
qed

lemma flags_reread:
  assumes "distinct (map fst fl)" "set (map fst fl) = set (map fst default_flags)"
    and "read_flags (flags_child fl) (map fst default_flags) default_flags = Inr fl'"
  shows "map_of fl' = map_of fl" "map fst fl' = map fst default_flags"
proof -
  have fl': "fl' = fold (\<lambda>k a. case map_of (attrib (flags_child fl)) k of
                          None \<Rightarrow> a
                        | Some v \<Rightarrow> (case py_int v of Inr n \<Rightarrow> AList.update k n a | Inl err \<Rightarrow> a))
                     (map fst default_flags) default_flags"
    using assms(3) by (simp add: read_flags_fold)
  show "map fst fl' = map fst default_flags"
    unfolding fl' by (rule keys_reread) simp
  show "map_of fl' = map_of fl"
  proof
    fix x
    show "map_of fl' x = map_of fl x"
    proof (cases "x \<in> set (map fst default_flags)")
      case True
      then have "x \<in> set (map fst fl)" using assms(2) by simp
      then obtain n where "map_of fl x = Some n"
        by (metis map_of_eq_None_iff not_Some_eq set_map)
      with True show ?thesis
        unfolding fl' map_of_reread by (simp add: map_of_flags_attrib[OF assms(1)] py_int_py_str)
    next
      case False
      then have "x \<notin> set (map fst fl)" using assms(2) by simp
      then have "map_of fl x = None" by (simp add: map_of_eq_None_iff)
      moreover have "map_of default_flags x = None"
        using False by (simp add: map_of_eq_None_iff)
      ultimately show ?thesis
        unfolding fl' map_of_reread using False by simp
    qed
  qed
qed

text \<open>
  C1 as stated fails: \<^const>\<open>from_xml\<close> keeps only the \<^verbatim>\<open>usage\<close>, \<^verbatim>\<open>value\<close> and \<^verbatim>\<open>tag\<close> children
  whose \<^verbatim>\<open>name\<close> is non-empty, so an empty string in one of the three lists is written and
  then dropped on reading. \<^const>\<open>ex_blank_usage\<close> has the usages \<^verbatim>\<open>[""]\<close> and comes back
  with none.
\<close>

theorem C1_blank_usage_lost:
  "from_xml (to_xml ex_blank_usage) = Inr (ex_blank_usage\<lparr>usages := []\<rparr>) \<and>
   usages ex_blank_usage = [[]]"
  by (simp add: ex_blank_usage_def eval_simps)

text \<open>
  C1, amended. Take an entry whose flags dictionary has exactly the six fixed keys (one
  pair for each, with any integer values), whose category is \<^verbatim>\<open>None\<close> or non-empty, and whose usages, values
  and tags contain no empty string; the optional integers are arbitrary. Reading what
  \<^const>\<open>to_xml\<close> wrote gives the entry back: every field but the flags is equal, the three
  lists in their order, and the flags are equal as dictionaries (the same value under
  every key), listed in the order of the default dictionary.
\<close>

theorem C1_roundtrip:
  assumes "distinct (map fst (flags r))"
    and "set (map fst (flags r)) = set (map fst default_flags)"
    and "category r \<noteq> Some []"
    and "[] \<notin> set (usages r)" "[] \<notin> set (values_field r)" "[] \<notin> set (tags r)"
  shows "\<exists>fl. from_xml (to_xml r) = Inr (r\<lparr>flags := fl\<rparr>) \<and> map_of fl = map_of (flags r) \<and>
              map fst fl = map fst default_flags"
proof -
  obtain fl
    where fl: "read_flags (flags_child (flags r)) (map fst default_flags) default_flags = Inr fl"
    and rt: "from_xml (to_xml r) =
          Inr \<lparr>name = name r, nominal = nominal r, lifetime = lifetime r, restock = restock r,
               min_field = min_field r, quantmin = quantmin r, quantmax = quantmax r,
               cost = cost r, flags = fl,
               category = (if truthy (category r) then category r else None),
               usages = filter (\<lambda>u. u \<noteq> []) (usages r),
               values_field = filter (\<lambda>u. u \<noteq> []) (values_field r),
               tags = filter (\<lambda>u. u \<noteq> []) (tags r)\<rparr>"
    using from_xml_to_xml[of r] by blast
  have cat: "(if truthy (category r) then category r else None) = category r"
    using assms(3) by (cases "category r") (simp_all add: truthy_def)
  have lists: "filter (\<lambda>u. u \<noteq> []) (usages r) = usages r"
    "filter (\<lambda>u. u \<noteq> []) (values_field r) = values_field r"
    "filter (\<lambda>u. u \<noteq> []) (tags r) = tags r"
    using assms(4-6) by (auto simp: filter_id_conv)
  have "from_xml (to_xml r) = Inr (r\<lparr>flags := fl\<rparr>)"
    unfolding rt cat lists by simp
  with flags_reread[OF assms(1,2) fl] show ?thesis by blast
qed

theorem C1_roundtrip_witness:
  "\<exists>fl. from_xml (to_xml ex_entry) = Inr (ex_entry\<lparr>flags := fl\<rparr>) \<and>
        map_of fl = map_of (flags ex_entry) \<and> map fst fl = map fst default_flags"
  using C1_roundtrip[of ex_entry] by (simp add: ex_entry_def default_flags_def)

text \<open>
  C10. An entry whose category is the empty string is written without a category child,
  and reading the element gives an entry whose category is \<^verbatim>\<open>None\<close>.
\<close>

theorem C10_empty_category_becomes_absent:
  assumes "category r = Some []"
  shows "findall (to_xml r) ''category'' = [] \<and>
         (\<exists>r'. from_xml (to_xml r) = Inr r' \<and> category r' = None)"
proof
  show "findall (to_xml r) ''category'' = []"
    using assms by (simp add: findall_def to_xml_sel filter_children category_child_def)
  show "\<exists>r'. from_xml (to_xml r) = Inr r' \<and> category r' = None"
    using from_xml_to_xml[of r] assms by (auto simp: truthy_def)
qed

theorem C10_empty_category_becomes_absent_witness:
  "findall (to_xml ex_empty_category) ''category'' = [] \<and>
   (\<exists>r'. from_xml (to_xml ex_empty_category) = Inr r' \<and> category r' = None)"
  using C10_empty_category_becomes_absent[of ex_empty_category]
  by (simp add: ex_empty_category_def)

section \<open>Importing one document after another\<close>

lemma parsed_exists: "\<exists>es. list_all2 (\<lambda>t e. from_xml t = Inr e) ts es"
proof (induction ts)
  case Nil
  show ?case by simp
next
  case (Cons t ts)
  then obtain es where "list_all2 (\<lambda>t e. from_xml t = Inr e) ts es" by blast
  moreover obtain e where "from_xml t = Inr e" using from_xml_total by blast
  ultimately have "list_all2 (\<lambda>t e. from_xml t = Inr e) (t # ts) (e # es)" by simp
  then show ?case by blast
qed

lemma import_loop_result:
  "list_all2 (\<lambda>t e. from_xml t = Inr e) ts es' \<Longrightarrow>
   import_loop ts es cs = Inr (es @ es', cs \<union> {c. c \<noteq> [] \<and> Some c \<in> category ` set es'})"
proof (induction ts arbitrary: es es' cs)
  case Nil
  then show ?case by simp
next
  case (Cons t ts)
  then obtain e es'' where es': "es' = e # es''" and e: "from_xml t = Inr e"
    and rest: "list_all2 (\<lambda>t e. from_xml t = Inr e) ts es''"
    by (auto simp: list_all2_Cons1)
  show ?case
    unfolding es' using e Cons.IH[OF rest]
    by (cases "category e") (auto simp: bindE_def)
qed

lemma finite_categories: "finite {c. c \<noteq> [] \<and> Some c \<in> category ` set es}"
proof -
  have "{c. c \<noteq> [] \<and> Some c \<in> category ` set es} \<subseteq> Some -` (category ` set es)" by auto
  moreover have "finite (Some -` (category ` set es))"
    by (rule finite_vimageI) simp_all
  ultimately show ?thesis by (rule finite_subset)
qed

text \<open>
  An import of a \<^verbatim>\<open>types\<close> document always completes: it stores the parsed entries and
  computes the category pool from them and the presets alone.
\<close>

lemma action_import_types:
  assumes "path \<noteq> []" and "tag root = ''types''"
  shows "\<exists>es. list_all2 (\<lambda>t e. from_xml t = Inr e) (findall root ''type'') es \<and>
           action_import w path (Inr root) =
             (Completed,
              w\<lparr>entries := es,
                category_pool :=
                  sorted_list_of_set
                    (set CATEGORY_PRESETS \<union> {c. c \<noteq> [] \<and> Some c \<in> category ` set es})\<rparr>)"
proof -
  obtain es where es: "list_all2 (\<lambda>t e. from_xml t = Inr e) (findall root ''type'') es"
    using parsed_exists by blast
  have "action_import w path (Inr root) =
             (Completed,
              w\<lparr>entries := es,
                category_pool :=
                  sorted_list_of_set
                    (set CATEGORY_PRESETS \<union> {c. c \<noteq> [] \<and> Some c \<in> category ` set es})\<rparr>)"
    using assms import_loop_result[OF es, of "[]" "{}"]
    by (simp add: action_import_def bindE_def)
  with es show ?thesis by blast
qed

text \<open>
  C3 as stated fails: the second import computes the pool from the second document only.
  After \<^const>\<open>ex_doc1\<close>, whose categories are \<^verbatim>\<open>orchard\<close>, \<^verbatim>\<open>tools\<close> and \<^verbatim>\<open>signal\<close>, the pool
  holds \<^verbatim>\<open>orchard\<close>; after \<^const>\<open>ex_doc2\<close> (\<^verbatim>\<open>signal\<close> and \<^verbatim>\<open>camping\<close>) is imported next, it
  does not.
\<close>

theorem C3_first_document_categories_dropped:
  "''orchard'' \<in> set (category_pool (snd (action_import ex_window ''first.xml'' (Inr ex_doc1)))) \<and>
   ''orchard'' \<notin> set (category_pool
      (snd (action_import (snd (action_import ex_window ''first.xml'' (Inr ex_doc1)))
              ''second.xml'' (Inr ex_doc2))))"
  by (simp add: action_import_def ex_doc1_def ex_doc2_def CATEGORY_PRESETS_def eval_simps
        del: sorted_list_of_set_insert_remove sorted_list_of_set_insert)

text \<open>
  C3, amended. After two documents with root \<^verbatim>\<open>types\<close> are imported one after the other,
  both imports complete, the entries are those parsed from the second document, and the
  category pool is the set of the preset categories together with the non-empty
  categories of the second document's entries, sorted and without duplicates. What the
  first document contributed is discarded.
\<close>

theorem C3_second_import_replaces_categories:
  assumes "path1 \<noteq> []" "tag root1 = ''types''" "path2 \<noteq> []" "tag root2 = ''types''"
  shows "\<exists>w1 w2. action_import w path1 (Inr root1) = (Completed, w1) \<and>
           action_import w1 path2 (Inr root2) = (Completed, w2) \<and>
           list_all2 (\<lambda>t e. from_xml t = Inr e) (findall root2 ''type'') (entries w2) \<and>
           set (category_pool w2) =
             set CATEGORY_PRESETS \<union> {c. c \<noteq> [] \<and> Some c \<in> category ` set (entries w2)} \<and>
           sorted (category_pool w2) \<and> distinct (category_pool w2)"
proof -
  obtain es1 where w1: "action_import w path1 (Inr root1) =
      (Completed, w\<lparr>entries := es1, category_pool := sorted_list_of_set
          (set CATEGORY_PRESETS \<union> {c. c \<noteq> [] \<and> Some c \<in> category ` set es1})\<rparr>)"
    using action_import_types[OF assms(1,2)] by blast
  let ?w1 = "w\<lparr>entries := es1, category_pool := sorted_list_of_set
          (set CATEGORY_PRESETS \<union> {c. c \<noteq> [] \<and> Some c \<in> category ` set es1})\<rparr>"
  obtain es2 where es2: "list_all2 (\<lambda>t e. from_xml t = Inr e) (findall root2 ''type'') es2"
    and w2: "action_import ?w1 path2 (Inr root2) =
      (Completed, ?w1\<lparr>entries := es2, category_pool := sorted_list_of_set
          (set CATEGORY_PRESETS \<union> {c. c \<noteq> [] \<and> Some c \<in> category ` set es2})\<rparr>)"
    using action_import_types[OF assms(3,4)] by blast
  let ?w2 = "?w1\<lparr>entries := es2, category_pool := sorted_list_of_set
          (set CATEGORY_PRESETS \<union> {c. c \<noteq> [] \<and> Some c \<in> category ` set es2})\<rparr>"
  have fin: "finite (set CATEGORY_PRESETS \<union> {c. c \<noteq> [] \<and> Some c \<in> category ` set es2})"
    using finite_categories by simp
  have "set (category_pool ?w2) =
          set CATEGORY_PRESETS \<union> {c. c \<noteq> [] \<and> Some c \<in> category ` set (entries ?w2)}"
    using fin by simp
  moreover have "sorted (category_pool ?w2)" "distinct (category_pool ?w2)"
    by simp_all
  moreover have "list_all2 (\<lambda>t e. from_xml t = Inr e) (findall root2 ''type'') (entries ?w2)"
    using es2 by simp
  ultimately show ?thesis using w1 w2 by blast
qed

theorem C3_second_import_replaces_categories_witness:
  "\<exists>w1 w2. action_import ex_window ''first.xml'' (Inr ex_doc1) = (Completed, w1) \<and>
           action_import w1 ''second.xml'' (Inr ex_doc2) = (Completed, w2) \<and>
           list_all2 (\<lambda>t e. from_xml t = Inr e) (findall ex_doc2 ''type'') (entries w2) \<and>
           set (category_pool w2) =
             set CATEGORY_PRESETS \<union> {c. c \<noteq> [] \<and> Some c \<in> category ` set (entries w2)} \<and>
           sorted (category_pool w2) \<and> distinct (category_pool w2)"
  using C3_second_import_replaces_categories
          [of "''first.xml''" ex_doc1 "''second.xml''" ex_doc2 ex_window]
  by (simp add: ex_doc1_def ex_doc2_def)

section \<open>Duplicating an entry\<close>

text \<open>
  C9. For a row inside the collection, \<^const>\<open>duplicate_type\<close> completes and the new
  collection is the old one with one entry inserted after that row: the length grows by
  one, the new entry sits at the next position, and the entries before and after keep
  their order. The new entry has the contents of the source, but for the name, which is
  the source's name followed by \<^verbatim>\<open>_Copy\<close>. Its dictionary and lists are new objects:
  every entry of the old collection, the source included, reads the same after the
  duplication, and still reads the same after any later write to the flags, usages,
  values or tags of the copy.
\<close>

theorem C9_duplicate_type:
  assumes "idx < length (entries w)" and "list_all (allocated st) (entries w)"
  shows "\<exists>st' dup.
      duplicate_type st w (Some idx) =
        (Completed, st',
         w\<lparr>entries := take (idx + 1) (entries w) @ dup # drop (idx + 1) (entries w)\<rparr>) \<and>
      length (take (idx + 1) (entries w) @ dup # drop (idx + 1) (entries w)) =
        length (entries w) + 1 \<and>
      (take (idx + 1) (entries w) @ dup # drop (idx + 1) (entries w)) ! (idx + 1) = dup \<and>
      view st' dup = (view st (entries w ! idx))\<lparr>name := name (entries w ! idx) @ ''_Copy''\<rparr> \<and>
      (\<forall>e \<in> set (entries w). view st' e = view st e \<and>
         (\<forall>d. view (store_dict st' (flags dup) d) e = view st' e) \<and>
         (\<forall>l. view (store_list st' (usages dup) l) e = view st' e \<and>
              view (store_list st' (values_field dup) l) e = view st' e \<and>
              view (store_list st' (tags dup) l) e = view st' e))"
proof -
  let ?src = "entries w ! idx"
  let ?n = "next_ref st"
  let ?st' = "st\<lparr>dict_at := (dict_at st)(?n := dict_at st (flags ?src)),
                 list_at := (list_at st)(Suc ?n := list_at st (usages ?src),
                                         Suc (Suc ?n) := list_at st (values_field ?src),
                                         Suc (Suc (Suc ?n)) := list_at st (tags ?src)),
                 next_ref := Suc (Suc (Suc (Suc ?n)))\<rparr>"
  let ?dup = "\<lparr>name = name ?src @ ''_Copy'', nominal = nominal ?src,
               lifetime = lifetime ?src, restock = restock ?src,
               min_field = min_field ?src, quantmin = quantmin ?src,
               quantmax = quantmax ?src, cost = cost ?src, flags = ?n,
               category = category ?src, usages = Suc ?n, values_field = Suc (Suc ?n),
               tags = Suc (Suc (Suc ?n))\<rparr>"
  have src: "allocated st ?src"
    using assms by (simp add: list_all_length)
  have run: "duplicate_type st w (Some idx) =
        (Completed, ?st',
         w\<lparr>entries := take (idx + 1) (entries w) @ ?dup # drop (idx + 1) (entries w)\<rparr>)"
    using assms(1) src
    by (simp add: duplicate_type_def new_dict_def new_list_def allocated_def Let_def)
  have len: "length (take (idx + 1) (entries w) @ ?dup # drop (idx + 1) (entries w)) =
        length (entries w) + 1"
    using assms(1) by simp
  have at: "(take (idx + 1) (entries w) @ ?dup # drop (idx + 1) (entries w)) ! (idx + 1) = ?dup"
    using assms(1) by (simp add: nth_append)
  have copy: "view ?st' ?dup = (view st ?src)\<lparr>name := name ?src @ ''_Copy''\<rparr>"
    using src by (simp add: view_def allocated_def)
  have others: "view ?st' e = view st e \<and>
         (\<forall>d. view (store_dict ?st' (flags ?dup) d) e = view ?st' e) \<and>
         (\<forall>l. view (store_list ?st' (usages ?dup) l) e = view ?st' e \<and>
              view (store_list ?st' (values_field ?dup) l) e = view ?st' e \<and>
              view (store_list ?st' (tags ?dup) l) e = view ?st' e)"
    if "e \<in> set (entries w)" for e
  proof -
    have "allocated st e" using that assms(2) by (simp add: list_all_iff)
    then show ?thesis
      by (simp add: view_def allocated_def store_dict_def store_list_def)
  qed
  show ?thesis
    using run len at copy others by blast
qed

theorem C9_duplicate_type_witness:
  "\<exists>st' dup.
      duplicate_type ex_store ex_obj_window (Some 0) =
        (Completed, st', ex_obj_window\<lparr>entries := [ex_obj, dup]\<rparr>) \<and>
      view st' dup = (view ex_store ex_obj)\<lparr>name := ''AKM_Copy''\<rparr> \<and>
      view st' ex_obj = view ex_store ex_obj \<and>
      view (store_dict st' (flags dup) [(''crafted'', 1)]) ex_obj = view st' ex_obj \<and>
      view (store_list st' (usages dup) [''Farm'']) ex_obj = view st' ex_obj"
proof -
  have hyp: "0 < length (entries ex_obj_window)"
    "list_all (allocated ex_store) (entries ex_obj_window)"
    by (simp_all add: ex_obj_window_def ex_obj_def ex_store_def allocated_def)
  have shape: "take (0 + 1) (entries ex_obj_window) = [ex_obj]"
    "drop (0 + 1) (entries ex_obj_window) = []" "entries ex_obj_window ! 0 = ex_obj"
    "name ex_obj @ ''_Copy'' = ''AKM_Copy''" "set (entries ex_obj_window) = {ex_obj}"
    by (simp_all add: ex_obj_window_def ex_obj_def)
  from C9_duplicate_type[OF hyp] show ?thesis
    unfolding shape by simp blast
qed

end
